theory Spec2Isabelle
  imports Main "HOL-Library.Sublist" "HOL-Library.AList"
begin

section \<open>The task manager service\<close>

text \<open>
  A shallow embedding of the Go service: the model package (\<open>Task\<close> and its setters),
  the two request DTOs, the repository over the \<open>tasks\<close> table with its list cache, and
  the service layer on top of it.

  What the program takes from outside is made explicit:
  \<^item> a Go \<open>string\<close> is a \<open>string\<close> whose characters stand for the runes Go decodes
    (code points up to U+00FF);
  \<^item> a \<open>time.Time\<close> is the instant it denotes, an \<open>int\<close> counted from Go's zero time,
    at the precision the table stores; \<open>UTC()\<close> keeps the instant;
  \<^item> the \<open>tasks\<close> table is the list of its rows, a nullable column an \<open>option\<close>. The
    column \<open>id\<close> has the type \<open>uuid\<close>: a row holds the canonical text of its UUID, and
    every statement reads the id it is handed as the type's input function does. The
    database rejects a statement whose id is not UUID syntax and an insert that repeats
    a primary key, and answers every other statement;
  \<^item> the Redis client is the list of its key-value entries. A command either takes
    effect or returns an error, which the repository discards; whether the commands of
    one repository call succeed is the field \<open>redis_ok\<close> of the environment. Expiry of
    entries is not modelled;
  \<^item> \<open>time.Now()\<close>, the database's \<open>now()\<close>, \<open>uuid.New()\<close> and the JSON codec of
    \<open>encoding/json\<close> are fields of the environment of a call.
\<close>

subsection \<open>package model\<close>

type_synonym time = int

record NullString =
  ns_String :: string
  ns_Valid :: bool

record NullTime =
  nt_Time :: time
  nt_Valid :: bool

record Task =
  ID :: string
  Title :: string
  Description :: NullString
  Assignee :: NullString
  Completed :: bool
  DueDate :: NullTime
  CreatedAt :: time
  UpdatedAt :: time

text \<open>The zero value of a Go struct: what \<open>model.Task{}\<close> holds.\<close>

definition zero_NullString :: NullString where
  "zero_NullString = \<lparr>ns_String = '''', ns_Valid = False\<rparr>"

definition zero_NullTime :: NullTime where
  "zero_NullTime = \<lparr>nt_Time = 0, nt_Valid = False\<rparr>"

definition zero_Task :: Task where
  "zero_Task = \<lparr>ID = '''', Title = '''', Description = zero_NullString,
     Assignee = zero_NullString, Completed = False, DueDate = zero_NullTime,
     CreatedAt = 0, UpdatedAt = 0\<rparr>"

definition SetDescription :: "string \<Rightarrow> Task \<Rightarrow> Task" where
  "SetDescription s t = t\<lparr>Description := \<lparr>ns_String = s, ns_Valid = True\<rparr>\<rparr>"

definition ClearDescription :: "Task \<Rightarrow> Task" where
  "ClearDescription t = t\<lparr>Description := \<lparr>ns_String = '''', ns_Valid = False\<rparr>\<rparr>"

definition SetAssignee :: "string \<Rightarrow> Task \<Rightarrow> Task" where
  "SetAssignee s t = t\<lparr>Assignee := \<lparr>ns_String = s, ns_Valid = True\<rparr>\<rparr>"

definition ClearAssignee :: "Task \<Rightarrow> Task" where
  "ClearAssignee t = t\<lparr>Assignee := \<lparr>ns_String = '''', ns_Valid = False\<rparr>\<rparr>"

definition SetDueDate :: "time \<Rightarrow> Task \<Rightarrow> Task" where
  "SetDueDate dt t = t\<lparr>DueDate := \<lparr>nt_Time = dt, nt_Valid = True\<rparr>\<rparr>"

definition ClearDueDate :: "Task \<Rightarrow> Task" where
  "ClearDueDate t = t\<lparr>DueDate := \<lparr>nt_Time = 0, nt_Valid = False\<rparr>\<rparr>"

subsection \<open>package dtos\<close>

text \<open>A pointer field of a DTO is \<open>None\<close> when the JSON key is absent.\<close>

record CreateTaskDTO =
  new_Title :: string
  new_Description :: "string option"
  new_Assignee :: "string option"
  new_DueDate :: "time option"

record UpdateTaskDTO =
  upd_Title :: "string option"
  upd_Description :: "string option"
  upd_Assignee :: "string option"
  upd_Completed :: "bool option"
  upd_DueDate :: "time option"

definition CreateTaskDTO_ToModel :: "CreateTaskDTO \<Rightarrow> Task" where
  "CreateTaskDTO_ToModel d =
     (let t = zero_Task\<lparr>Title := new_Title d\<rparr>;
          t = (case new_Description d of None \<Rightarrow> t | Some s \<Rightarrow> SetDescription s t);
          t = (case new_Assignee d of None \<Rightarrow> t
               | Some s \<Rightarrow> if s \<noteq> '''' then SetAssignee s t else t);
          t = (case new_DueDate d of None \<Rightarrow> t | Some dt \<Rightarrow> SetDueDate dt t)
      in t)"

definition UpdateTaskDTO_ToModel :: "UpdateTaskDTO \<Rightarrow> string \<Rightarrow> Task" where
  "UpdateTaskDTO_ToModel d i =
     (let t = zero_Task\<lparr>ID := i\<rparr>;
          t = (case upd_Title d of None \<Rightarrow> t | Some s \<Rightarrow> t\<lparr>Title := s\<rparr>);
          t = (case upd_Description d of None \<Rightarrow> t
               | Some s \<Rightarrow> if s = '''' then ClearDescription t else SetDescription s t);
          t = (case upd_Assignee d of None \<Rightarrow> t
               | Some s \<Rightarrow> if s \<noteq> '''' then SetAssignee s t else t);
          t = (case upd_Completed d of None \<Rightarrow> t | Some b \<Rightarrow> t\<lparr>Completed := b\<rparr>);
          t = (case upd_DueDate d of None \<Rightarrow> t | Some dt \<Rightarrow> SetDueDate dt t)
      in t)"

subsection \<open>Library functions the service calls\<close>

text \<open>
  \<open>unicode.IsSpace\<close> on the Latin-1 range: tab, line feed, vertical tab, form feed,
  carriage return, space, U+0085 and U+00A0. \<open>strings.TrimSpace\<close> drops the leading
  and the trailing white space.
\<close>

definition isSpace :: "char \<Rightarrow> bool" where
  "isSpace c = (of_char c \<in> {9, 10, 11, 12, 13, 32, 133, 160 :: nat})"

definition TrimSpace :: "string \<Rightarrow> string" where
  "TrimSpace s = rev (dropWhile isSpace (rev (dropWhile isSpace s)))"

text \<open>\<open>fmt.Sprintf\<close> with the verbs \<open>%d\<close> (an int in decimal) and \<open>%v\<close> (a bool).\<close>

fun digits :: "nat \<Rightarrow> string" where
  "digits n = (if n < 10 then [char_of (48 + n)] else digits (n div 10) @ [char_of (48 + n mod 10)])"

definition Sprintf_d :: "int \<Rightarrow> string" where
  "Sprintf_d i = (if i < 0 then CHR ''-'' # digits (nat (- i)) else digits (nat i))"

definition Sprintf_v :: "bool \<Rightarrow> string" where
  "Sprintf_v b = (if b then ''true'' else ''false'')"

subsection \<open>The table and the cache\<close>

record row =
  r_id :: string
  r_title :: string
  r_description :: "string option"
  r_assignee :: "string option"
  r_completed :: bool
  r_due_date :: "time option"
  r_created_at :: time
  r_updated_at :: time

text \<open>
  \<open>sql.NullString\<close> and \<open>sql.NullTime\<close> as the driver writes and scans them: an invalid
  value is written as NULL, and NULL is scanned to the zero value with \<open>Valid = false\<close>.
\<close>

definition NullString_Value :: "NullString \<Rightarrow> string option" where
  "NullString_Value ns = (if ns_Valid ns then Some (ns_String ns) else None)"

definition NullString_Scan :: "string option \<Rightarrow> NullString" where
  "NullString_Scan v = (case v of None \<Rightarrow> \<lparr>ns_String = '''', ns_Valid = False\<rparr>
                        | Some s \<Rightarrow> \<lparr>ns_String = s, ns_Valid = True\<rparr>)"

definition NullTime_Value :: "NullTime \<Rightarrow> time option" where
  "NullTime_Value nt = (if nt_Valid nt then Some (nt_Time nt) else None)"

definition NullTime_Scan :: "time option \<Rightarrow> NullTime" where
  "NullTime_Scan v = (case v of None \<Rightarrow> \<lparr>nt_Time = 0, nt_Valid = False\<rparr>
                      | Some t \<Rightarrow> \<lparr>nt_Time = t, nt_Valid = True\<rparr>)"

text \<open>The named parameters of the INSERT, and the column list of every SELECT.\<close>

definition row_of_Task :: "Task \<Rightarrow> row" where
  "row_of_Task t = \<lparr>r_id = ID t, r_title = Title t,
     r_description = NullString_Value (Description t),
     r_assignee = NullString_Value (Assignee t), r_completed = Completed t,
     r_due_date = NullTime_Value (DueDate t), r_created_at = CreatedAt t,
     r_updated_at = UpdatedAt t\<rparr>"

definition scan_Task :: "row \<Rightarrow> Task" where
  "scan_Task x = \<lparr>ID = r_id x, Title = r_title x,
     Description = NullString_Scan (r_description x),
     Assignee = NullString_Scan (r_assignee x), Completed = r_completed x,
     DueDate = NullTime_Scan (r_due_date x), CreatedAt = r_created_at x,
     UpdatedAt = r_updated_at x\<rparr>"

text \<open>
  The column type \<open>uuid\<close> of \<open>tasks.id\<close>. Its input function reads sixteen bytes of two
  hexadecimal digits each, in either case, between optional braces, with an optional
  hyphen after every second byte; \<open>uuid_bytes n\<close> reads the last \<open>n\<close> of them and gives
  their digits in lower case with the text left over. Its output function writes the
  thirty-two digits in the groups 8-4-4-4-12. \<open>uuid_in\<close> is the text of the UUID an id
  denotes, \<open>None\<close> when the id is not UUID syntax.
\<close>

definition hex_digit :: "char \<Rightarrow> char option" where
  "hex_digit c = map_of (zip ''0123456789abcdefABCDEF'' ''0123456789abcdefabcdef'') c"

fun uuid_bytes :: "nat \<Rightarrow> string \<Rightarrow> (string \<times> string) option" where
  "uuid_bytes 0 src = Some ([], src)"
| "uuid_bytes (Suc n) src =
     (case src of
        a # b # rest \<Rightarrow>
          (case (hex_digit a, hex_digit b) of
             (Some x, Some y) \<Rightarrow>
               (case uuid_bytes n (if even n \<and> n \<noteq> 0 \<and> take 1 rest = ''-''
                                   then drop 1 rest else rest) of
                  None \<Rightarrow> None
                | Some (ds, r) \<Rightarrow> Some (x # y # ds, r))
           | _ \<Rightarrow> None)
      | _ \<Rightarrow> None)"

definition uuid_out :: "string \<Rightarrow> string" where
  "uuid_out ds = take 8 ds @ ''-'' @ take 4 (drop 8 ds) @ ''-'' @ take 4 (drop 12 ds) @ ''-''
                 @ take 4 (drop 16 ds) @ ''-'' @ drop 20 ds"

definition uuid_in :: "string \<Rightarrow> string option" where
  "uuid_in source =
     (let braces = (take 1 source = ''{'');
          src = (if braces then drop 1 source else source)
      in case uuid_bytes 16 src of
           None \<Rightarrow> None
         | Some (ds, rest) \<Rightarrow>
             if rest = (if braces then ''}'' else []) then Some (uuid_out ds) else None)"

text \<open>
  The errors of the repository and the service, and the two errors of the database the
  repository hands on as they come: an id that is not UUID syntax (SQLSTATE 22P02) and a
  repeated primary key (SQLSTATE 23505).
\<close>

datatype error = ErrNotFound | ErrInvalidInput | ErrTaskNil
  | ErrInvalidTextRepresentation | ErrUniqueViolation

text \<open>
  The environment of one call: the readings of the application's and the database's
  clock, the UUID that \<open>uuid.New()\<close> would return, whether the Redis commands of the
  call succeed, and the JSON codec.
\<close>

record env =
  now :: time
  db_now :: time
  new_uuid :: string
  redis_ok :: bool
  json_Marshal :: "Task list \<Rightarrow> string option"
  json_Unmarshal :: "string \<Rightarrow> Task list option"

record taskRepo =
  db :: "row list"
  rdb :: "(string \<times> string) list option"

definition NewTaskRepository :: "row list \<Rightarrow> taskRepo" where
  "NewTaskRepository rows = \<lparr>db = rows, rdb = None\<rparr>"

definition SetCacheClient :: "(string \<times> string) list \<Rightarrow> taskRepo \<Rightarrow> taskRepo" where
  "SetCacheClient c r = r\<lparr>rdb := Some c\<rparr>"

text \<open>The Redis commands the repository issues. GET answers \<open>None\<close> on a miss and on an error.\<close>

definition redis_Get :: "bool \<Rightarrow> string \<Rightarrow> (string \<times> string) list \<Rightarrow> string option" where
  "redis_Get ok k c = (if ok then map_of c k else None)"

definition redis_Set :: "bool \<Rightarrow> string \<Rightarrow> string \<Rightarrow> (string \<times> string) list \<Rightarrow> (string \<times> string) list" where
  "redis_Set ok k v c = (if ok then AList.update k v c else c)"

definition redis_Del :: "bool \<Rightarrow> string \<Rightarrow> (string \<times> string) list \<Rightarrow> (string \<times> string) list" where
  "redis_Del ok k c = (if ok then AList.delete k c else c)"

text \<open>SCAN with the pattern \<open>p*\<close>: the keys that start with \<open>p\<close>; none when the scan fails.\<close>

definition redis_Scan :: "bool \<Rightarrow> string \<Rightarrow> (string \<times> string) list \<Rightarrow> string list" where
  "redis_Scan ok p c = (if ok then filter (prefix p) (map fst c) else [])"

subsection \<open>package repositories\<close>

definition cacheKeyForList :: "int \<Rightarrow> int \<Rightarrow> bool option \<Rightarrow> string option \<Rightarrow> string" where
  "cacheKeyForList limit offset completed assignee =
     (let compVal = (case completed of None \<Rightarrow> ''any'' | Some b \<Rightarrow> Sprintf_v b);
          assVal = (case assignee of None \<Rightarrow> ''any'' | Some a \<Rightarrow> a)
      in ''tasks:list:limit='' @ Sprintf_d limit @ '':offset='' @ Sprintf_d offset
         @ '':completed='' @ compVal @ '':assignee='' @ assVal)"

definition invalidateListCache :: "bool \<Rightarrow> taskRepo \<Rightarrow> taskRepo" where
  "invalidateListCache ok r =
     (case rdb r of
        None \<Rightarrow> r
      | Some c \<Rightarrow> r\<lparr>rdb := Some (fold (redis_Del ok) (redis_Scan ok ''tasks:list:'' c) c)\<rparr>)"

text \<open>
  The INSERT: the column reads the id, the primary key rejects a UUID the table already
  has, and the row is stored under the canonical text of its UUID.
\<close>

definition db_insert_task :: "row \<Rightarrow> row list \<Rightarrow> error + row list" where
  "db_insert_task x rows =
     (case uuid_in (r_id x) of
        None \<Rightarrow> Inl ErrInvalidTextRepresentation
      | Some u \<Rightarrow> if u \<in> set (map r_id rows) then Inl ErrUniqueViolation
                  else Inr (rows @ [x\<lparr>r_id := u\<rparr>]))"

text \<open>
  \<open>Create\<close> writes the id and both timestamps into the task it was handed; the task after
  the call is the \<open>Inr\<close> result.
\<close>

definition taskRepo_Create :: "env \<Rightarrow> Task option \<Rightarrow> taskRepo \<Rightarrow> (error + Task) \<times> taskRepo" where
  "taskRepo_Create e task r =
     (case task of
        None \<Rightarrow> (Inl ErrTaskNil, r)
      | Some t0 \<Rightarrow>
          let t1 = (if ID t0 = '''' then t0\<lparr>ID := new_uuid e\<rparr> else t0);
              t2 = t1\<lparr>CreatedAt := now e, UpdatedAt := now e\<rparr>
          in (case db_insert_task (row_of_Task t2) (db r) of
                Inl err \<Rightarrow> (Inl err, r)
              | Inr rows \<Rightarrow> (Inr t2, invalidateListCache (redis_ok e) (r\<lparr>db := rows\<rparr>))))"

text \<open>
  The SELECT by id: an error of the database when the id is not UUID syntax, otherwise
  the row of that UUID, or no row (\<open>sql.ErrNoRows\<close>).
\<close>

definition db_get_task :: "string \<Rightarrow> row list \<Rightarrow> error + row option" where
  "db_get_task i rows =
     (case uuid_in i of
        None \<Rightarrow> Inl ErrInvalidTextRepresentation
      | Some u \<Rightarrow> Inr (find (\<lambda>x. r_id x = u) rows))"

definition taskRepo_GetByID :: "string \<Rightarrow> taskRepo \<Rightarrow> error + Task" where
  "taskRepo_GetByID i r =
     (case db_get_task i (db r) of
        Inl err \<Rightarrow> Inl err
      | Inr None \<Rightarrow> Inl ErrNotFound
      | Inr (Some x) \<Rightarrow> Inr (scan_Task x))"

text \<open>
  The four SELECT statements of \<open>List\<close>: the WHERE clause, then ORDER BY created_at DESC
  (rows of equal \<open>created_at\<close> keep their table order), then OFFSET and LIMIT. A
  comparison with a NULL assignee is never true.
\<close>

definition order_by_created_at_desc :: "row list \<Rightarrow> row list" where
  "order_by_created_at_desc rows = sort_key (\<lambda>x. - r_created_at x) rows"

definition limit_offset :: "int \<Rightarrow> int \<Rightarrow> row list \<Rightarrow> row list" where
  "limit_offset limit offset rows = take (nat limit) (drop (nat offset) rows)"

definition db_select_tasks :: "int \<Rightarrow> int \<Rightarrow> bool option \<Rightarrow> string option \<Rightarrow> row list \<Rightarrow> row list" where
  "db_select_tasks limit offset completed assignee rows =
     (if completed = None \<and> (assignee = None \<or> assignee = Some '''') then
        limit_offset limit offset (order_by_created_at_desc rows)
      else if completed \<noteq> None \<and> (assignee = None \<or> assignee = Some '''') then
        limit_offset limit offset (order_by_created_at_desc
          (filter (\<lambda>x. Some (r_completed x) = completed) rows))
      else if completed = None \<and> assignee \<noteq> None then
        limit_offset limit offset (order_by_created_at_desc
          (filter (\<lambda>x. r_assignee x = assignee) rows))
      else
        limit_offset limit offset (order_by_created_at_desc
          (filter (\<lambda>x. Some (r_completed x) = completed \<and> r_assignee x = assignee) rows)))"

definition taskRepo_List ::
  "env \<Rightarrow> int \<Rightarrow> int \<Rightarrow> bool option \<Rightarrow> string option \<Rightarrow> taskRepo \<Rightarrow> (error + Task list) \<times> taskRepo" where
  "taskRepo_List e limit offset completed assignee r =
     (let cacheKey = cacheKeyForList limit offset completed assignee;
          hit = (case rdb r of
                   None \<Rightarrow> None
                 | Some c \<Rightarrow> (case redis_Get (redis_ok e) cacheKey c of
                               None \<Rightarrow> None
                             | Some s \<Rightarrow> json_Unmarshal e s))
      in case hit of
           Some cached \<Rightarrow> (Inr cached, r)
         | None \<Rightarrow>
             let limit1 = (if limit \<le> 0 then 100 else limit);
                 offset1 = (if offset < 0 then 0 else offset);
                 tasks = map scan_Task (db_select_tasks limit1 offset1 completed assignee (db r))
             in (case rdb r of
                   None \<Rightarrow> (Inr tasks, r)
                 | Some c \<Rightarrow>
                     (case json_Marshal e tasks of
                        None \<Rightarrow> (Inr tasks, r)
                      | Some b \<Rightarrow> (Inr tasks, r\<lparr>rdb := Some (redis_Set (redis_ok e) cacheKey b c)\<rparr>))))"

text \<open>
  The UPDATE: every row with the task's UUID gets the four columns of the statement; the
  trigger \<open>trg_set_updated_at\<close> runs before each row is written and replaces
  \<open>updated_at\<close> by the database's \<open>now()\<close>. The result is the number of rows affected
  and the table after the statement.
\<close>

definition trg_set_updated_at :: "time \<Rightarrow> row \<Rightarrow> row" where
  "trg_set_updated_at dbnow new = new\<lparr>r_updated_at := dbnow\<rparr>"

definition db_update_task :: "time \<Rightarrow> Task \<Rightarrow> row list \<Rightarrow> error + (nat \<times> row list)" where
  "db_update_task dbnow t rows =
     (case uuid_in (ID t) of
        None \<Rightarrow> Inl ErrInvalidTextRepresentation
      | Some u \<Rightarrow>
          Inr (length (filter (\<lambda>x. r_id x = u) rows),
               map (\<lambda>x. if r_id x = u
                         then trg_set_updated_at dbnow
                                (x\<lparr>r_title := Title t,
                                   r_description := NullString_Value (Description t),
                                   r_completed := Completed t,
                                   r_due_date := NullTime_Value (DueDate t),
                                   r_updated_at := UpdatedAt t\<rparr>)
                         else x) rows))"

definition taskRepo_Update :: "env \<Rightarrow> Task option \<Rightarrow> taskRepo \<Rightarrow> error option \<times> taskRepo" where
  "taskRepo_Update e task r =
     (case task of
        None \<Rightarrow> (Some ErrTaskNil, r)
      | Some t0 \<Rightarrow>
          let t = t0\<lparr>UpdatedAt := now e\<rparr>
          in (case db_update_task (db_now e) t (db r) of
                Inl err \<Rightarrow> (Some err, r)
              | Inr (ra, rows) \<Rightarrow>
                  if ra = 0 then (Some ErrNotFound, r\<lparr>db := rows\<rparr>)
                  else (None, invalidateListCache (redis_ok e) (r\<lparr>db := rows\<rparr>))))"

text \<open>The DELETE: the number of rows affected and the table after the statement.\<close>

definition db_delete_task :: "string \<Rightarrow> row list \<Rightarrow> error + (nat \<times> row list)" where
  "db_delete_task i rows =
     (case uuid_in i of
        None \<Rightarrow> Inl ErrInvalidTextRepresentation
      | Some u \<Rightarrow> Inr (length (filter (\<lambda>x. r_id x = u) rows), filter (\<lambda>x. r_id x \<noteq> u) rows))"

definition taskRepo_Delete :: "env \<Rightarrow> string \<Rightarrow> taskRepo \<Rightarrow> (error + bool) \<times> taskRepo" where
  "taskRepo_Delete e i r =
     (case db_delete_task i (db r) of
        Inl err \<Rightarrow> (Inl err, r)
      | Inr (ra, rows) \<Rightarrow>
          let r1 = r\<lparr>db := rows\<rparr>;
              deleted = (ra > 0)
          in if deleted then (Inr deleted, invalidateListCache (redis_ok e) r1)
             else (Inr deleted, r1))"

definition taskRepo_Count :: "taskRepo \<Rightarrow> error + nat" where
  "taskRepo_Count r = Inr (length (db r))"

definition taskRepo_CountFiltered :: "bool option \<Rightarrow> string option \<Rightarrow> taskRepo \<Rightarrow> error + nat" where
  "taskRepo_CountFiltered completed assignee r =
     (if completed = None \<and> (assignee = None \<or> assignee = Some '''') then
        Inr (length (db r))
      else if completed \<noteq> None \<and> (assignee = None \<or> assignee = Some '''') then
        Inr (length (filter (\<lambda>x. Some (r_completed x) = completed) (db r)))
      else if completed = None \<and> assignee \<noteq> None then
        Inr (length (filter (\<lambda>x. r_assignee x = assignee) (db r)))
      else
        Inr (length (filter (\<lambda>x. Some (r_completed x) = completed \<and> r_assignee x = assignee) (db r))))"

subsection \<open>package service\<close>

text \<open>The service holds its repository; \<open>TasksCount\<close> is the gauge of package metric.\<close>

record taskService =
  repo :: taskRepo
  TasksCount :: int

definition NewTaskService :: "taskRepo \<Rightarrow> taskService" where
  "NewTaskService r = \<lparr>repo = r, TasksCount = 0\<rparr>"

definition taskService_Create :: "env \<Rightarrow> Task \<Rightarrow> taskService \<Rightarrow> (error + Task) \<times> taskService" where
  "taskService_Create e task0 s =
     (let task = task0\<lparr>Title := TrimSpace (Title task0)\<rparr>
      in if Title task = '''' then (Inl ErrInvalidInput, s)
         else (case taskRepo_Create e (Some task) (repo s) of
                 (Inl err, r1) \<Rightarrow> (Inl err, s\<lparr>repo := r1\<rparr>)
               | (Inr created, r1) \<Rightarrow>
                   (Inr created, s\<lparr>repo := r1, TasksCount := TasksCount s + 1\<rparr>)))"

definition taskService_GetByID :: "string \<Rightarrow> taskService \<Rightarrow> error + Task" where
  "taskService_GetByID i s =
     (case taskRepo_GetByID i (repo s) of Inl err \<Rightarrow> Inl err | Inr t \<Rightarrow> Inr t)"

definition taskService_List ::
  "env \<Rightarrow> int \<Rightarrow> int \<Rightarrow> bool option \<Rightarrow> string option \<Rightarrow> taskService
     \<Rightarrow> (error + (Task list \<times> nat)) \<times> taskService" where
  "taskService_List e limit offset completed assignee s =
     (case taskRepo_List e limit offset completed assignee (repo s) of
        (Inl err, r1) \<Rightarrow> (Inl err, s\<lparr>repo := r1\<rparr>)
      | (Inr tasks, r1) \<Rightarrow>
          (case taskRepo_CountFiltered completed assignee r1 of
             Inl err \<Rightarrow> (Inl err, s\<lparr>repo := r1\<rparr>)
           | Inr cnt \<Rightarrow> (Inr (tasks, cnt), s\<lparr>repo := r1\<rparr>)))"

definition taskService_Update :: "env \<Rightarrow> Task \<Rightarrow> taskService \<Rightarrow> (error + Task) \<times> taskService" where
  "taskService_Update e task s =
     (case taskRepo_GetByID (ID task) (repo s) of
        Inl err \<Rightarrow> (Inl err, s)
      | Inr t0 \<Rightarrow>
          if Title task \<noteq> '''' \<and> TrimSpace (Title task) = '''' then (Inl ErrInvalidInput, s)
          else
            let t = (if Title task \<noteq> '''' then t0\<lparr>Title := TrimSpace (Title task)\<rparr> else t0)
            in (case taskRepo_Update e (Some t) (repo s) of
                  (Some err, r1) \<Rightarrow> (Inl err, s\<lparr>repo := r1\<rparr>)
                | (None, r1) \<Rightarrow>
                    (case taskRepo_GetByID (ID task) r1 of
                       Inl err \<Rightarrow> (Inl err, s\<lparr>repo := r1\<rparr>)
                     | Inr updated \<Rightarrow> (Inr updated, s\<lparr>repo := r1\<rparr>))))"

definition taskService_Delete :: "env \<Rightarrow> string \<Rightarrow> taskService \<Rightarrow> error option \<times> taskService" where
  "taskService_Delete e i s =
     (case taskRepo_Delete e i (repo s) of
        (Inl err, r1) \<Rightarrow> (Some err, s\<lparr>repo := r1\<rparr>)
      | (Inr ok, r1) \<Rightarrow>
          if \<not> ok then (Some ErrNotFound, s\<lparr>repo := r1\<rparr>)
          else (None, s\<lparr>repo := r1, TasksCount := TasksCount s - 1\<rparr>))"

definition taskService_Count :: "taskService \<Rightarrow> error + nat" where
  "taskService_Count s = taskRepo_Count (repo s)"

definition taskService_SetCacheClient :: "(string \<times> string) list \<Rightarrow> taskService \<Rightarrow> taskService" where
  "taskService_SetCacheClient c s = s\<lparr>repo := SetCacheClient c (repo s)\<rparr>"

subsection \<open>Notions the claims use\<close>

text \<open>
  The filter of the specification, in its own words: a completed filter keeps the rows
  with that completed value, an assignee filter keeps the rows with that assignee, an
  empty assignee filter is no filter, and an absent filter keeps every row.
\<close>

definition spec_matches :: "bool option \<Rightarrow> string option \<Rightarrow> row \<Rightarrow> bool" where
  "spec_matches completed assignee x =
     ((case completed of None \<Rightarrow> True | Some c \<Rightarrow> r_completed x = c)
      \<and> (case assignee of None \<Rightarrow> True | Some a \<Rightarrow> a = [] \<or> r_assignee x = Some a))"

text \<open>No key of the namespace \<open>tasks:list:\<close> is in the cache (or there is no cache).\<close>

definition no_list_entries :: "taskRepo \<Rightarrow> bool" where
  "no_list_entries r =
     (case rdb r of None \<Rightarrow> True
      | Some c \<Rightarrow> filter (prefix ''tasks:list:'') (map fst c) = [])"

text \<open>
  The states the public operations reach from an empty table, with clocks that do not
  run backwards: every reading of the application's and of the database's clock is at
  least \<open>clk\<close>, the latest reading so far.
\<close>

inductive reachable :: "time \<Rightarrow> taskService \<Rightarrow> bool" where
  start: "reachable clk (NewTaskService (NewTaskRepository []))"
| attach: "reachable clk s \<Longrightarrow> reachable clk (taskService_SetCacheClient c s)"
| create: "reachable clk s \<Longrightarrow> clk \<le> now e \<Longrightarrow> clk \<le> db_now e \<Longrightarrow>
     reachable (max (now e) (db_now e)) (snd (taskService_Create e task s))"
| update: "reachable clk s \<Longrightarrow> clk \<le> now e \<Longrightarrow> clk \<le> db_now e \<Longrightarrow>
     reachable (max (now e) (db_now e)) (snd (taskService_Update e task s))"
| delete: "reachable clk s \<Longrightarrow> clk \<le> now e \<Longrightarrow> clk \<le> db_now e \<Longrightarrow>
     reachable (max (now e) (db_now e)) (snd (taskService_Delete e i s))"
| list: "reachable clk s \<Longrightarrow> clk \<le> now e \<Longrightarrow> clk \<le> db_now e \<Longrightarrow>
     reachable (max (now e) (db_now e)) (snd (taskService_List e limit offset completed assignee s))"

subsection \<open>Sample values\<close>

text \<open>
  A call environment, a stored row and a service over it, for the closed instances below.
  The ids are UUIDs in canonical text, as \<open>uuid.New().String()\<close> writes them.
\<close>

definition sample_env :: env where
  "sample_env = \<lparr>now = 5, db_now = 6, new_uuid = ''6f1c2d3e-4b5a-4c6d-8e7f-0a1b2c3d4e5f'', redis_ok = True,
     json_Marshal = (\<lambda>ts. None), json_Unmarshal = (\<lambda>s. None)\<rparr>"

definition sample_row :: row where
  "sample_row = \<lparr>r_id = ''11111111-1111-4111-8111-111111111111'', r_title = ''old'', r_description = Some ''d'',
     r_assignee = Some ''bob'', r_completed = False, r_due_date = None,
     r_created_at = 1, r_updated_at = 1\<rparr>"

definition sample_service :: taskService where
  "sample_service = NewTaskService (NewTaskRepository [sample_row])"

definition sample_rows :: "row list" where
  "sample_rows =
     [sample_row,
      \<lparr>r_id = ''22222222-2222-4222-8222-222222222222'', r_title = ''second'', r_description = None, r_assignee = None,
        r_completed = True, r_due_date = Some 40, r_created_at = 2, r_updated_at = 3\<rparr>,
      \<lparr>r_id = ''33333333-3333-4333-8333-333333333333'', r_title = ''third'', r_description = None, r_assignee = Some ''amy'',
        r_completed = True, r_due_date = None, r_created_at = 3, r_updated_at = 3\<rparr>]"

text \<open>
  An empty table behind a cache that holds the unfiltered first page, as a list call
  left it (the empty page is cached as \<open>null\<close>), and a decoder that reads it back.
\<close>

definition sample_cached_repo :: taskRepo where
  "sample_cached_repo =
     SetCacheClient [(cacheKeyForList 100 0 None None, ''null'')] (NewTaskRepository [])"

definition sample_Unmarshal :: "string \<Rightarrow> Task list option" where
  "sample_Unmarshal s = (if s = ''null'' then Some [] else None)"

section \<open>Properties\<close>

subsection \<open>Auxiliary facts\<close>

lemma NullString_Value_Scan [simp]: "NullString_Value (NullString_Scan v) = v"
  by (cases v) (simp_all add: NullString_Value_def NullString_Scan_def)

lemma NullTime_Value_Scan [simp]: "NullTime_Value (NullTime_Scan v) = v"
  by (cases v) (simp_all add: NullTime_Value_def NullTime_Scan_def)

lemma row_of_scan_Task [simp]: "row_of_Task (scan_Task x) = x"
  by (simp add: row_of_Task_def scan_Task_def)

lemma ID_UpdateTaskDTO_ToModel [simp]: "ID (UpdateTaskDTO_ToModel d i) = i"
  by (simp add: UpdateTaskDTO_ToModel_def zero_Task_def Let_def SetDescription_def
      ClearDescription_def SetAssignee_def SetDueDate_def split: option.splits)

lemma Title_UpdateTaskDTO_ToModel [simp]:
  "Title (UpdateTaskDTO_ToModel d i) = (case upd_Title d of None \<Rightarrow> '''' | Some s \<Rightarrow> s)"
  by (simp add: UpdateTaskDTO_ToModel_def zero_Task_def Let_def SetDescription_def
      ClearDescription_def SetAssignee_def SetDueDate_def split: option.splits)

lemma db_invalidateListCache [simp]: "db (invalidateListCache ok r) = db r"
  by (simp add: invalidateListCache_def split: option.splits)

text \<open>The text the column writes is read back as itself.\<close>

lemma hex_digit_idem: "hex_digit a = Some x \<Longrightarrow> hex_digit x = Some x"
  by (auto simp: hex_digit_def split: if_splits)

lemma hex_digit_fixed_neq:
  "hex_digit c = Some c \<Longrightarrow> c \<noteq> CHR ''-'' \<and> c \<noteq> CHR ''{''"
  by (auto simp: hex_digit_def)

lemma uuid_bytes_digits:
  "uuid_bytes n src = Some (ds, rest) \<Longrightarrow> length ds = 2 * n \<and> (\<forall>c \<in> set ds. hex_digit c = Some c)"
proof (induction n arbitrary: src ds rest)
  case 0
  then show ?case by simp
next
  case (Suc n)
  then show ?case
    by (auto split: list.splits option.splits if_splits dest: hex_digit_idem)
qed

lemma uuid_bytes_group:
  assumes "\<forall>c \<in> set ds. hex_digit c = Some c" and "length ds = 2 * k" and "0 < k"
  shows "uuid_bytes (m + k) (ds @ tail) =
           map_option (\<lambda>(es, r). (ds @ es, r))
             (uuid_bytes m (if even m \<and> m \<noteq> 0 \<and> take 1 tail = ''-'' then drop 1 tail else tail))"
  using assms
proof (induction k arbitrary: ds)
  case 0
  then show ?case by simp
next
  case (Suc k)
  then obtain a b ds' where ds: "ds = a # b # ds'"
    by (cases ds; cases "tl ds") auto
  show ?case
  proof (cases "k = 0")
    case True
    then have "ds' = []" using Suc.prems ds by simp
    then show ?thesis
      using Suc.prems ds True by (auto split: option.splits)
  next
    case False
    then obtain c ds'' where ds': "ds' = c # ds''"
      using Suc.prems ds by (cases ds') auto
    have c: "c \<noteq> CHR ''-''"
      using Suc.prems(1) ds ds' hex_digit_fixed_neq [of c] by simp
    have ih: "uuid_bytes (m + k) (ds' @ tail) =
           map_option (\<lambda>(es, r). (ds' @ es, r))
             (uuid_bytes m (if even m \<and> m \<noteq> 0 \<and> take 1 tail = ''-'' then drop 1 tail else tail))"
      using Suc.prems ds False by (intro Suc.IH) auto
    have "uuid_bytes (m + Suc k) (ds @ tail) =
        (case uuid_bytes (m + k) (ds' @ tail) of None \<Rightarrow> None | Some (es, r) \<Rightarrow> Some (a # b # es, r))"
      using Suc.prems(1) ds ds' c by simp
    then show ?thesis
      by (simp add: ih ds split: option.splits)
  qed
qed

lemma uuid_in_uuid_out:
  assumes "\<forall>c \<in> set ds. hex_digit c = Some c" and "length ds = 32"
  shows "uuid_in (uuid_out ds) = Some (uuid_out ds)"
proof -
  define g1 where "g1 = take 8 ds"
  define g2 where "g2 = take 4 (drop 8 ds)"
  define g3 where "g3 = take 4 (drop 12 ds)"
  define g4 where "g4 = take 4 (drop 16 ds)"
  define g5 where "g5 = drop 20 ds"
  have out: "uuid_out ds = g1 @ ''-'' @ g2 @ ''-'' @ g3 @ ''-'' @ g4 @ ''-'' @ g5"
    by (simp add: uuid_out_def g1_def g2_def g3_def g4_def g5_def)
  have len: "length g1 = 2 * 4" "length g2 = 2 * 2" "length g3 = 2 * 2" "length g4 = 2 * 2"
    "length g5 = 2 * 6"
    using assms(2) by (simp_all add: g1_def g2_def g3_def g4_def g5_def)
  have hex: "\<forall>c \<in> set g1. hex_digit c = Some c" "\<forall>c \<in> set g2. hex_digit c = Some c"
    "\<forall>c \<in> set g3. hex_digit c = Some c" "\<forall>c \<in> set g4. hex_digit c = Some c"
    "\<forall>c \<in> set g5. hex_digit c = Some c"
    using assms(1) by (auto simp: g1_def g2_def g3_def g4_def g5_def dest: in_set_takeD in_set_dropD)
  have all: "g1 @ g2 @ g3 @ g4 @ g5 = ds"
    unfolding g1_def g2_def g3_def g4_def g5_def
  proof -
    have "take 8 ds @ take 4 (drop 8 ds) = take 12 ds"
      using take_add [of 8 4 ds] by simp
    moreover have "take 12 ds @ take 4 (drop 12 ds) = take 16 ds"
      using take_add [of 12 4 ds] by simp
    moreover have "take 16 ds @ take 4 (drop 16 ds) = take 20 ds"
      using take_add [of 16 4 ds] by simp
    moreover have "take 20 ds @ drop 20 ds = ds"
      by simp
    ultimately show "take 8 ds @ take 4 (drop 8 ds) @ take 4 (drop 12 ds) @ take 4 (drop 16 ds) @ drop 20 ds = ds"
      by (metis append.assoc)
  qed
  have s5: "uuid_bytes (0 + 6) (g5 @ []) = Some (g5, [])"
    using uuid_bytes_group [OF hex(5) len(5), of 0 "[]"] by simp
  have s4: "uuid_bytes (6 + 2) (g4 @ ''-'' @ g5) = Some (g4 @ g5, [])"
    using uuid_bytes_group [OF hex(4) len(4), of 6 "''-'' @ g5"] s5 by simp
  have s3: "uuid_bytes (8 + 2) (g3 @ ''-'' @ g4 @ ''-'' @ g5) = Some (g3 @ g4 @ g5, [])"
    using uuid_bytes_group [OF hex(3) len(3), of 8 "''-'' @ g4 @ ''-'' @ g5"] s4 by simp
  have s2: "uuid_bytes (10 + 2) (g2 @ ''-'' @ g3 @ ''-'' @ g4 @ ''-'' @ g5) = Some (g2 @ g3 @ g4 @ g5, [])"
    using uuid_bytes_group [OF hex(2) len(2), of 10 "''-'' @ g3 @ ''-'' @ g4 @ ''-'' @ g5"] s3 by simp
  have s1: "uuid_bytes (12 + 4) (g1 @ ''-'' @ g2 @ ''-'' @ g3 @ ''-'' @ g4 @ ''-'' @ g5)
      = Some (g1 @ g2 @ g3 @ g4 @ g5, [])"
    using uuid_bytes_group [OF hex(1) len(1), of 12 "''-'' @ g2 @ ''-'' @ g3 @ ''-'' @ g4 @ ''-'' @ g5"] s2
    by simp
  obtain c g1' where g1: "g1 = c # g1'"
    using len(1) by (cases g1) auto
  then have "c \<noteq> CHR ''{''"
    using hex(1) hex_digit_fixed_neq [of c] by simp
  then have nb: "take 1 (uuid_out ds) \<noteq> ''{''"
    by (simp add: out g1)
  show ?thesis
    using s1 nb all by (simp add: uuid_in_def out [symmetric] Let_def del: uuid_bytes.simps)
      (simp add: out)
qed

lemma uuid_in_canonical: "uuid_in i = Some u \<Longrightarrow> uuid_in u = Some u"
proof -
  assume a: "uuid_in i = Some u"
  then obtain src ds rest where "uuid_bytes 16 src = Some (ds, rest)" and u: "u = uuid_out ds"
    by (auto simp: uuid_in_def Let_def split: option.splits if_splits)
  then have "length ds = 32" and "\<forall>c \<in> set ds. hex_digit c = Some c"
    using uuid_bytes_digits [of 16 src ds rest] by auto
  then show ?thesis
    unfolding u by (intro uuid_in_uuid_out) auto
qed

text \<open>The ids of the sample values, and an id that is no UUID.\<close>

lemma uuid_in_sample_row:
  "uuid_in ''11111111-1111-4111-8111-111111111111'' = Some ''11111111-1111-4111-8111-111111111111''"
  by code_simp

lemma uuid_in_sample_new:
  "uuid_in ''6f1c2d3e-4b5a-4c6d-8e7f-0a1b2c3d4e5f'' = Some ''6f1c2d3e-4b5a-4c6d-8e7f-0a1b2c3d4e5f''"
  by code_simp



lemma taskRepo_GetByID_Inr:
  "taskRepo_GetByID i r = Inr t \<longleftrightarrow>
     (\<exists>u x. uuid_in i = Some u \<and> find (\<lambda>x. r_id x = u) (db r) = Some x \<and> t = scan_Task x)"
  by (auto simp: taskRepo_GetByID_def db_get_task_def split: option.splits)

lemma taskRepo_GetByID_found:
  "uuid_in i = Some u \<Longrightarrow> find (\<lambda>x. r_id x = u) (db r) = Some x
     \<Longrightarrow> taskRepo_GetByID i r = Inr (scan_Task x)"
  by (simp add: taskRepo_GetByID_def db_get_task_def)



lemma find_map_same_id:
  assumes "\<And>x. r_id (f x) = r_id x"
  shows "find (\<lambda>x. r_id x = i) (map (\<lambda>x. if r_id x = i then f x else x) rows)
         = map_option f (find (\<lambda>x. r_id x = i) rows)"
  using assms by (induction rows) auto

lemma find_Some_filter_pos: "find P xs = Some x \<Longrightarrow> 0 < length (filter P xs)"
  by (induction xs) (auto split: if_splits)

lemma taskService_Update_found:
  assumes uuid: "uuid_in (ID task) = Some u"
    and found: "find (\<lambda>x. r_id x = u) (db (repo s)) = Some x"
    and title: "\<not> (Title task \<noteq> '''' \<and> TrimSpace (Title task) = '''')"
  obtains s' where
    "taskService_Update e task s =
       (Inr (scan_Task (x\<lparr>r_title := (if Title task \<noteq> '''' then TrimSpace (Title task) else r_title x),
                          r_updated_at := db_now e\<rparr>)), s')"
    and "find (\<lambda>x. r_id x = u) (db (repo s')) =
       Some (x\<lparr>r_title := (if Title task \<noteq> '''' then TrimSpace (Title task) else r_title x),
              r_updated_at := db_now e\<rparr>)"
proof -
  define T where "T = (if Title task \<noteq> '''' then TrimSpace (Title task) else r_title x)"
  define rows where "rows = map (\<lambda>y. if r_id y = u
               then y\<lparr>r_title := T, r_description := r_description x,
                      r_completed := r_completed x, r_due_date := r_due_date x,
                      r_updated_at := db_now e\<rparr>
               else y) (db (repo s))"
  define r1 where "r1 = invalidateListCache (redis_ok e) ((repo s)\<lparr>db := rows\<rparr>)"
  have idx: "r_id x = u"
    using found by (auto simp: find_Some_iff)
  have canon: "uuid_in u = Some u"
    using uuid by (rule uuid_in_canonical)
  have get: "taskRepo_GetByID (ID task) (repo s) = Inr (scan_Task x)"
    using uuid found by (rule taskRepo_GetByID_found)
  define t where "t = (if Title task \<noteq> '''' then (scan_Task x)\<lparr>Title := TrimSpace (Title task)\<rparr> else scan_Task x)"
  have t_id: "ID t = u"
    using idx by (simp add: t_def scan_Task_def)
  have upd: "db_update_task (db_now e) (t\<lparr>UpdatedAt := now e\<rparr>) (db (repo s))
             = Inr (length (filter (\<lambda>x. r_id x = u) (db (repo s))), rows)"
    using idx canon by (simp add: db_update_task_def rows_def T_def t_def
        trg_set_updated_at_def scan_Task_def t_id)
  have pos: "0 < length (filter (\<lambda>x. r_id x = u) (db (repo s)))"
    using found by (rule find_Some_filter_pos)
  have repo_upd: "taskRepo_Update e (Some t) (repo s) = (None, r1)"
    using pos by (simp add: taskRepo_Update_def upd r1_def)
  have find2: "find (\<lambda>x. r_id x = u) (db r1)
        = Some (x\<lparr>r_title := T, r_updated_at := db_now e\<rparr>)"
    unfolding r1_def rows_def by (simp add: find_map_same_id found)
  have get2: "taskRepo_GetByID (ID task) r1 = Inr (scan_Task (x\<lparr>r_title := T, r_updated_at := db_now e\<rparr>))"
    using uuid find2 by (rule taskRepo_GetByID_found)
  have "taskService_Update e task s =
          (case taskRepo_Update e (Some t) (repo s) of
             (Some err, r1) \<Rightarrow> (Inl err, s\<lparr>repo := r1\<rparr>)
           | (None, r1) \<Rightarrow>
               (case taskRepo_GetByID (ID task) r1 of
                  Inl err \<Rightarrow> (Inl err, s\<lparr>repo := r1\<rparr>)
                | Inr updated \<Rightarrow> (Inr updated, s\<lparr>repo := r1\<rparr>)))"
    using title by (cases "Title task = ''''") (simp_all add: taskService_Update_def get t_def Let_def)
  then have "taskService_Update e task s =
      (Inr (scan_Task (x\<lparr>r_title := T, r_updated_at := db_now e\<rparr>)), s\<lparr>repo := r1\<rparr>)"
    by (simp add: repo_upd get2)
  moreover have "find (\<lambda>x. r_id x = u) (db (repo (s\<lparr>repo := r1\<rparr>))) =
       Some (x\<lparr>r_title := T, r_updated_at := db_now e\<rparr>)"
    by (simp add: find2)
  ultimately show thesis
    using that unfolding T_def by blast
qed



lemma taskService_Update_blank_title:
  assumes "Title task \<noteq> ''''" and "TrimSpace (Title task) = ''''"
    and "uuid_in (ID task) = Some u"
    and "find (\<lambda>x. r_id x = u) (db (repo s)) = Some x"
  shows "taskService_Update e task s = (Inl ErrInvalidInput, s)"
  using assms by (simp add: taskService_Update_def taskRepo_GetByID_found)

lemma find_append_fresh:
  "r_id x \<notin> set (map r_id rows) \<Longrightarrow> find (\<lambda>y. r_id y = r_id x) (rows @ [x]) = Some x"
  by (induction rows) auto

lemma taskService_Create_blank:
  "TrimSpace (Title task) = [] \<Longrightarrow> taskService_Create e task s = (Inl ErrInvalidInput, s)"
  by (simp add: taskService_Create_def)

lemma taskService_Create_fresh:
  assumes "TrimSpace (Title task) \<noteq> []"
    and "uuid_in (if ID task = [] then new_uuid e else ID task) = Some u"
    and "u \<notin> set (map r_id (db (repo s)))"
  shows "taskService_Create e task s =
      (Inr (task\<lparr>ID := (if ID task = [] then new_uuid e else ID task),
                  Title := TrimSpace (Title task), CreatedAt := now e, UpdatedAt := now e\<rparr>),
       s\<lparr>repo := invalidateListCache (redis_ok e)
                   ((repo s)\<lparr>db := db (repo s) @
                      [(row_of_Task (task\<lparr>ID := (if ID task = [] then new_uuid e else ID task),
                          Title := TrimSpace (Title task), CreatedAt := now e,
                          UpdatedAt := now e\<rparr>))\<lparr>r_id := u\<rparr>]\<rparr>),
         TasksCount := TasksCount s + 1\<rparr>)"
  using assms
  by (cases "ID task = []")
    (simp_all add: taskService_Create_def taskRepo_Create_def db_insert_task_def Let_def row_of_Task_def)

lemma taskService_Create_duplicate:
  assumes "TrimSpace (Title task) \<noteq> []"
    and "uuid_in (if ID task = [] then new_uuid e else ID task) = Some u"
    and "u \<in> set (map r_id (db (repo s)))"
  shows "taskService_Create e task s = (Inl ErrUniqueViolation, s)"
  using assms
  by (cases "ID task = []")
    (simp_all add: taskService_Create_def taskRepo_Create_def db_insert_task_def Let_def row_of_Task_def)

lemma taskService_Create_syntax:
  assumes "TrimSpace (Title task) \<noteq> []"
    and "uuid_in (if ID task = [] then new_uuid e else ID task) = None"
  shows "taskService_Create e task s = (Inl ErrInvalidTextRepresentation, s)"
  using assms
  by (cases "ID task = []")
    (simp_all add: taskService_Create_def taskRepo_Create_def db_insert_task_def Let_def row_of_Task_def)

lemma db_select_tasks_spec:
  "db_select_tasks limit offset completed assignee rows =
     limit_offset limit offset
       (order_by_created_at_desc (filter (spec_matches completed assignee) rows))"
  by (cases completed; cases assignee)
    (auto simp: db_select_tasks_def spec_matches_def [abs_def])

lemma taskRepo_CountFiltered_spec:
  "taskRepo_CountFiltered completed assignee r
     = Inr (length (filter (spec_matches completed assignee) (db r)))"
  by (cases completed; cases assignee)
    (auto simp: taskRepo_CountFiltered_def spec_matches_def [abs_def])

lemma limit_offset_all:
  "int (length rows) \<le> limit \<Longrightarrow> offset \<le> 0 \<Longrightarrow> limit_offset limit offset rows = rows"
  by (simp add: limit_offset_def)

lemma length_order_by_created_at_desc [simp]:
  "length (order_by_created_at_desc rows) = length rows"
  by (simp add: order_by_created_at_desc_def)

lemma filter_order_by_created_at_desc:
  "filter P (order_by_created_at_desc rows) = order_by_created_at_desc (filter P rows)"
  by (simp add: order_by_created_at_desc_def filter_sort)

lemma unbounded_select:
  assumes "0 < limit" and "int (length rows) \<le> limit" and "offset \<le> 0"
  shows "db_select_tasks (if limit \<le> 0 then 100 else limit) (if offset < 0 then 0 else offset)
           completed assignee rows
         = order_by_created_at_desc (filter (spec_matches completed assignee) rows)"
proof -
  have "int (length (order_by_created_at_desc (filter (spec_matches completed assignee) rows))) \<le> limit"
  proof -
    have "int (length (order_by_created_at_desc (filter (spec_matches completed assignee) rows)))
        \<le> int (length rows)"
      by simp
    with assms(2) show ?thesis
      by linarith
  qed
  then have "limit_offset limit offset
        (order_by_created_at_desc (filter (spec_matches completed assignee) rows))
      = order_by_created_at_desc (filter (spec_matches completed assignee) rows)"
    using assms(3) by (rule limit_offset_all)
  moreover have "(if limit \<le> 0 then 100 else limit) = limit"
    and "(if offset < 0 then 0 else offset) = offset \<or> offset < 0"
    using assms by auto
  moreover have "\<And>xs. offset < 0 \<Longrightarrow> limit_offset limit 0 xs = limit_offset limit offset xs"
    by (simp add: limit_offset_def)
  ultimately show ?thesis
    by (auto simp: db_select_tasks_spec)
qed

lemma prefix_cacheKeyForList: "prefix ''tasks:list:'' (cacheKeyForList limit offset completed assignee)"
  by (simp add: cacheKeyForList_def)

lemma map_fst_fold_delete:
  "map fst (fold AList.delete ks c) = filter (\<lambda>k. k \<notin> set ks) (map fst c)"
proof (induction ks arbitrary: c)
  case Nil
  then show ?case by simp
next
  case (Cons k ks)
  have "map fst (AList.delete k c) = filter (\<lambda>k'. k' \<noteq> k) (map fst c)"
    by (induction c) auto
  with Cons show ?case
    by (auto intro: filter_cong)
qed

lemma fold_redis_Del: "fold (redis_Del True) ks c = fold AList.delete ks c"
  by (induction ks arbitrary: c) (simp_all add: redis_Del_def)

lemma invalidateListCache_clears:
  assumes "ok \<or> rdb r = None"
  shows "no_list_entries (invalidateListCache ok r)"
proof (cases "rdb r")
  case None
  then show ?thesis
    by (simp add: no_list_entries_def invalidateListCache_def)
next
  case (Some c)
  with assms have ok by simp
  have "filter (prefix ''tasks:list:'')
          (map fst (fold AList.delete (filter (prefix ''tasks:list:'') (map fst c)) c)) = []"
    by (simp add: map_fst_fold_delete filter_empty_conv)
  then show ?thesis
    using Some \<open>ok\<close>
    by (simp add: no_list_entries_def invalidateListCache_def redis_Scan_def fold_redis_Del)
qed

lemma invalidateListCache_unreachable:
  "invalidateListCache False r = r"
  by (cases "rdb r") (simp_all add: invalidateListCache_def redis_Scan_def)

lemma taskRepo_List_no_entries:
  assumes "no_list_entries r"
  shows "fst (taskRepo_List e limit offset completed assignee r) =
     Inr (map scan_Task (db_select_tasks (if limit \<le> 0 then 100 else limit)
                             (if offset < 0 then 0 else offset) completed assignee (db r)))"
proof (cases "rdb r")
  case None
  then show ?thesis
    by (simp add: taskRepo_List_def Let_def)
next
  case (Some c)
  have "cacheKeyForList limit offset completed assignee \<notin> set (map fst c)"
    using assms Some prefix_cacheKeyForList [of limit offset completed assignee]
    by (auto simp: no_list_entries_def filter_empty_conv)
  then have "map_of c (cacheKeyForList limit offset completed assignee) = None"
    by (simp add: map_of_eq_None_iff)
  then show ?thesis
    using Some by (simp add: taskRepo_List_def Let_def redis_Get_def split: option.splits)
qed

lemma db_after_Create:
  "db (repo (snd (taskService_Create e task s))) = db (repo s)
   \<or> (\<exists>x. db (repo (snd (taskService_Create e task s))) = db (repo s) @ [x]
          \<and> r_created_at x = now e \<and> r_updated_at x = now e)"
  by (auto simp: taskService_Create_def taskRepo_Create_def db_insert_task_def Let_def
      row_of_Task_def split: prod.splits sum.splits option.splits if_splits)

lemma db_taskRepo_Update:
  "db (snd (taskRepo_Update e (Some t) r)) =
     (case uuid_in (ID t) of
        None \<Rightarrow> db r
      | Some u \<Rightarrow>
          map (\<lambda>x. if r_id x = u
                    then x\<lparr>r_title := Title t, r_description := NullString_Value (Description t),
                           r_completed := Completed t, r_due_date := NullTime_Value (DueDate t),
                           r_updated_at := db_now e\<rparr>
                    else x) (db r))"
  by (simp add: taskRepo_Update_def db_update_task_def trg_set_updated_at_def Let_def
      split: option.splits)

lemma repo_after_Update:
  "repo (snd (taskService_Update e task s)) = repo s
   \<or> (\<exists>t. repo (snd (taskService_Update e task s)) = snd (taskRepo_Update e (Some t) (repo s)))"
proof (cases "taskRepo_GetByID (ID task) (repo s)")
  case (Inl err)
  then show ?thesis
    by (simp add: taskService_Update_def)
next
  case (Inr t0)
  show ?thesis
  proof (cases "Title task \<noteq> [] \<and> TrimSpace (Title task) = []")
    case True
    then show ?thesis
      using Inr by (simp add: taskService_Update_def)
  next
    case False
    define t where "t = (if Title task \<noteq> [] then t0\<lparr>Title := TrimSpace (Title task)\<rparr> else t0)"
    obtain err r1 where u: "taskRepo_Update e (Some t) (repo s) = (err, r1)"
      by (cases "taskRepo_Update e (Some t) (repo s)")
    have "repo (snd (taskService_Update e task s)) = r1"
      using Inr False u
      by (cases "Title task = []")
        (auto simp: taskService_Update_def t_def Let_def split: option.splits sum.splits)
    then show ?thesis
      using u by (metis snd_conv)
  qed
qed

lemma db_after_Update:
  assumes "y \<in> set (db (repo (snd (taskService_Update e task s))))"
  shows "\<exists>x \<in> set (db (repo s)). r_created_at y = r_created_at x
           \<and> (r_updated_at y = r_updated_at x \<or> r_updated_at y = db_now e)"
proof -
  from repo_after_Update [of e task s] show ?thesis
  proof
    assume "repo (snd (taskService_Update e task s)) = repo s"
    with assms show ?thesis by auto
  next
    assume "\<exists>t. repo (snd (taskService_Update e task s)) = snd (taskRepo_Update e (Some t) (repo s))"
    then obtain t where "repo (snd (taskService_Update e task s)) = snd (taskRepo_Update e (Some t) (repo s))"
      by blast
    with assms obtain x where "x \<in> set (db (repo s))"
      and "y = x \<or> y = x\<lparr>r_title := Title t, r_description := NullString_Value (Description t),
                      r_completed := Completed t, r_due_date := NullTime_Value (DueDate t),
                      r_updated_at := db_now e\<rparr>"
      by (auto simp: db_taskRepo_Update split: option.splits if_splits)
    then show ?thesis
      by auto
  qed
qed

lemma db_after_Delete:
  "set (db (repo (snd (taskService_Delete e i s)))) \<subseteq> set (db (repo s))"
  by (auto simp: taskService_Delete_def taskRepo_Delete_def db_delete_task_def Let_def
      split: prod.splits sum.splits option.splits if_splits)

lemma db_taskRepo_List [simp]:
  "db (snd (taskRepo_List e limit offset completed assignee r)) = db r"
  by (simp add: taskRepo_List_def Let_def split: option.splits)

lemma db_after_List:
  "db (repo (snd (taskService_List e limit offset completed assignee s))) = db (repo s)"
proof -
  obtain res r1 where l: "taskRepo_List e limit offset completed assignee (repo s) = (res, r1)"
    by (cases "taskRepo_List e limit offset completed assignee (repo s)")
  then have "db r1 = db (repo s)"
    using db_taskRepo_List [of e limit offset completed assignee "repo s"] by simp
  then show ?thesis
    using l by (simp add: taskService_List_def taskRepo_CountFiltered_def split: sum.splits)
qed

lemma reachable_timestamps:
  assumes "reachable clk s"
  shows "\<forall>x \<in> set (db (repo s)). r_created_at x \<le> r_updated_at x \<and> r_created_at x \<le> clk"
  using assms
proof (induction rule: reachable.induct)
  case (start clk)
  then show ?case
    by (simp add: NewTaskService_def NewTaskRepository_def)
next
  case (attach clk s c)
  then show ?case
    by (simp add: taskService_SetCacheClient_def SetCacheClient_def)
next
  case (create clk s e task)
  then show ?case
    using db_after_Create [of e task s] by fastforce
next
  case (update clk s e task)
  show ?case
  proof
    fix y assume "y \<in> set (db (repo (snd (taskService_Update e task s))))"
    then obtain x where "x \<in> set (db (repo s))" and "r_created_at y = r_created_at x"
      and "r_updated_at y = r_updated_at x \<or> r_updated_at y = db_now e"
      using db_after_Update by blast
    with update show "r_created_at y \<le> r_updated_at y \<and> r_created_at y \<le> max (now e) (db_now e)"
      by fastforce
  qed
next
  case (delete clk s e i)
  then show ?case
    using db_after_Delete [of e i s] by fastforce
next
  case (list clk s e limit offset completed assignee)
  then show ?case
    by (fastforce simp: db_after_List)
qed

subsection \<open>Partial update\<close>

text \<open>
  Claim C1. The update operation loads the stored record and merges every provided field
  of the request onto it before persisting. The service merges the title only: a request
  for the stored sample task that provides completed, a description and a due date comes
  back, and is stored, with the three columns as they were; only \<open>updated_at\<close> moves.
\<close>

theorem C1_update_ignores_completed_description_due_date:
  "taskService_Update sample_env
     (UpdateTaskDTO_ToModel \<lparr>upd_Title = None, upd_Description = Some ''new text'',
        upd_Assignee = None, upd_Completed = Some True, upd_DueDate = Some 9\<rparr>
        ''11111111-1111-4111-8111-111111111111'')
     sample_service
   = (Inr \<lparr>ID = ''11111111-1111-4111-8111-111111111111'', Title = ''old'',
           Description = \<lparr>ns_String = ''d'', ns_Valid = True\<rparr>,
           Assignee = \<lparr>ns_String = ''bob'', ns_Valid = True\<rparr>, Completed = False,
           DueDate = \<lparr>nt_Time = 0, nt_Valid = False\<rparr>, CreatedAt = 1, UpdatedAt = 6\<rparr>,
      sample_service\<lparr>repo := (repo sample_service)\<lparr>db := [sample_row\<lparr>r_updated_at := 6\<rparr>]\<rparr>\<rparr>)"
  by (simp add: taskService_Update_def taskRepo_GetByID_def db_get_task_def taskRepo_Update_def
      db_update_task_def trg_set_updated_at_def invalidateListCache_def uuid_in_sample_row
      UpdateTaskDTO_ToModel_def zero_Task_def SetDescription_def SetDueDate_def
      sample_env_def sample_row_def sample_service_def NewTaskService_def
      NewTaskRepository_def scan_Task_def NullString_Scan_def NullTime_Scan_def
      NullString_Value_def NullTime_Value_def Let_def)




text \<open>
  Claim C6. For every stored task, an update that provides only completed leaves title,
  description, assignee and due date of the persisted record as they were.
\<close>

theorem C6_update_completed_only_frame:
  assumes "taskRepo_GetByID i (repo s) = Inr before"
  shows "\<exists>after s'.
           taskService_Update e
             (UpdateTaskDTO_ToModel \<lparr>upd_Title = None, upd_Description = None, upd_Assignee = None,
                upd_Completed = Some c, upd_DueDate = None\<rparr> i) s = (Inr after, s')
         \<and> taskRepo_GetByID i (repo s') = Inr after
         \<and> Title after = Title before \<and> Description after = Description before
         \<and> Assignee after = Assignee before \<and> DueDate after = DueDate before"
proof -
  let ?task = "UpdateTaskDTO_ToModel \<lparr>upd_Title = None, upd_Description = None, upd_Assignee = None,
                upd_Completed = Some c, upd_DueDate = None\<rparr> i"
  from assms obtain u x where u: "uuid_in (ID ?task) = Some u"
    and x: "find (\<lambda>x. r_id x = u) (db (repo s)) = Some x"
    and before: "before = scan_Task x"
    by (auto simp: taskRepo_GetByID_Inr)
  have "\<not> (Title ?task \<noteq> '''' \<and> TrimSpace (Title ?task) = '''')"
    by simp
  with u x obtain s' where
    upd: "taskService_Update e ?task s = (Inr (scan_Task (x\<lparr>r_title := r_title x, r_updated_at := db_now e\<rparr>)), s')"
    and f: "find (\<lambda>x. r_id x = u) (db (repo s')) = Some (x\<lparr>r_title := r_title x, r_updated_at := db_now e\<rparr>)"
    by (rule taskService_Update_found [where e = e]) simp
  have "uuid_in i = Some u"
    using u by simp
  then have "taskRepo_GetByID i (repo s') = Inr (scan_Task (x\<lparr>r_title := r_title x, r_updated_at := db_now e\<rparr>))"
    using f by (rule taskRepo_GetByID_found)
  with upd before show ?thesis
    by (simp add: scan_Task_def)
qed

theorem C6_update_completed_only_frame_witness:
  "taskRepo_GetByID ''11111111-1111-4111-8111-111111111111'' (repo sample_service)
     = Inr (scan_Task sample_row)
   \<and> (\<exists>after s'.
         taskService_Update sample_env
           (UpdateTaskDTO_ToModel \<lparr>upd_Title = None, upd_Description = None, upd_Assignee = None,
              upd_Completed = Some True, upd_DueDate = None\<rparr>
              ''11111111-1111-4111-8111-111111111111'') sample_service = (Inr after, s')
       \<and> taskRepo_GetByID ''11111111-1111-4111-8111-111111111111'' (repo s') = Inr after
       \<and> Title after = Title (scan_Task sample_row)
       \<and> Description after = Description (scan_Task sample_row)
       \<and> Assignee after = Assignee (scan_Task sample_row)
       \<and> DueDate after = DueDate (scan_Task sample_row))"
proof -
  have h: "taskRepo_GetByID ''11111111-1111-4111-8111-111111111111'' (repo sample_service)
      = Inr (scan_Task sample_row)"
    by (simp add: taskRepo_GetByID_def db_get_task_def uuid_in_sample_row sample_service_def
        sample_row_def NewTaskService_def NewTaskRepository_def)
  from C6_update_completed_only_frame [OF h] h show ?thesis
    by blast
qed




subsection \<open>The list cache key\<close>

text \<open>
  Claim C3. Distinct combinations of limit, offset and the two filters give distinct
  cache keys, and the key of an absent assignee filter differs from the key of every
  present one. The key does not tell the assignee \<open>any\<close> from no assignee filter: for
  every limit, offset and completed filter the two keys are equal.
\<close>

theorem C3_any_sentinel_collides:
  "cacheKeyForList limit offset completed (Some ''any'') = cacheKeyForList limit offset completed None"
  by (simp add: cacheKeyForList_def)

subsection \<open>Create\<close>

text \<open>
  Claim C4. Create trims the title before it validates and stores it. A title that is
  empty after trimming fails with InvalidInput and leaves the service as it was, the
  store untouched. Any other title is stored and returned trimmed, provided the table
  accepts the insert (the id is a UUID that is not taken); when it does not, nothing is
  stored. The titles \<open>""\<close> and \<open>"   "\<close> trim to the empty title, \<open>" x "\<close> trims to \<open>"x"\<close>.
\<close>

theorem C4_create_trims_title:
  "(TrimSpace (Title task) = [] \<longrightarrow> taskService_Create e task s = (Inl ErrInvalidInput, s))
   \<and> (TrimSpace (Title task) \<noteq> []
        \<and> uuid_in (if ID task = [] then new_uuid e else ID task) = Some u
        \<and> u \<notin> set (map r_id (db (repo s))) \<longrightarrow>
        (\<exists>t s'. taskService_Create e task s = (Inr t, s')
               \<and> Title t = TrimSpace (Title task)
               \<and> (\<exists>t'. taskRepo_GetByID (ID t) (repo s') = Inr t'
                        \<and> Title t' = TrimSpace (Title task))))
   \<and> (TrimSpace (Title task) \<noteq> []
        \<and> uuid_in (if ID task = [] then new_uuid e else ID task) = Some u
        \<and> u \<in> set (map r_id (db (repo s))) \<longrightarrow>
        taskService_Create e task s = (Inl ErrUniqueViolation, s))
   \<and> (TrimSpace (Title task) \<noteq> []
        \<and> uuid_in (if ID task = [] then new_uuid e else ID task) = None \<longrightarrow>
        taskService_Create e task s = (Inl ErrInvalidTextRepresentation, s))
   \<and> TrimSpace [] = [] \<and> TrimSpace ''   '' = [] \<and> TrimSpace '' x '' = ''x''"
proof (intro conjI impI)
  assume "TrimSpace (Title task) = []"
  then show "taskService_Create e task s = (Inl ErrInvalidInput, s)"
    by (rule taskService_Create_blank)
next
  let ?i = "if ID task = [] then new_uuid e else ID task"
  let ?t = "task\<lparr>ID := ?i, Title := TrimSpace (Title task), CreatedAt := now e, UpdatedAt := now e\<rparr>"
  let ?x = "(row_of_Task ?t)\<lparr>r_id := u\<rparr>"
  assume a: "TrimSpace (Title task) \<noteq> [] \<and> uuid_in ?i = Some u \<and> u \<notin> set (map r_id (db (repo s)))"
  then have c: "taskService_Create e task s =
      (Inr ?t, s\<lparr>repo := invalidateListCache (redis_ok e)
                   ((repo s)\<lparr>db := db (repo s) @ [?x]\<rparr>),
                 TasksCount := TasksCount s + 1\<rparr>)"
    using taskService_Create_fresh [of task e u s] by simp
  have "r_id ?x \<notin> set (map r_id (db (repo s)))"
    using a by simp
  then have "find (\<lambda>y. r_id y = r_id ?x) (db (repo s) @ [?x]) = Some ?x"
    by (rule find_append_fresh)
  then have "find (\<lambda>y. r_id y = u)
       (db (invalidateListCache (redis_ok e) ((repo s)\<lparr>db := db (repo s) @ [?x]\<rparr>))) = Some ?x"
    by simp
  moreover have "uuid_in (ID ?t) = Some u"
    using a by simp
  ultimately have "taskRepo_GetByID (ID ?t)
       (invalidateListCache (redis_ok e) ((repo s)\<lparr>db := db (repo s) @ [?x]\<rparr>))
      = Inr (scan_Task ?x)"
    by (intro taskRepo_GetByID_found)
  moreover have "Title (scan_Task ?x) = TrimSpace (Title task)"
    by (simp add: scan_Task_def row_of_Task_def)
  ultimately show "\<exists>t s'. taskService_Create e task s = (Inr t, s')
               \<and> Title t = TrimSpace (Title task)
               \<and> (\<exists>t'. taskRepo_GetByID (ID t) (repo s') = Inr t'
                        \<and> Title t' = TrimSpace (Title task))"
    using c by simp
next
  assume "TrimSpace (Title task) \<noteq> []
        \<and> uuid_in (if ID task = [] then new_uuid e else ID task) = Some u
        \<and> u \<in> set (map r_id (db (repo s)))"
  then show "taskService_Create e task s = (Inl ErrUniqueViolation, s)"
    using taskService_Create_duplicate [of task e u s] by simp
next
  assume "TrimSpace (Title task) \<noteq> []
        \<and> uuid_in (if ID task = [] then new_uuid e else ID task) = None"
  then show "taskService_Create e task s = (Inl ErrInvalidTextRepresentation, s)"
    using taskService_Create_syntax [of task e s] by simp
qed (simp_all add: TrimSpace_def isSpace_def)

theorem C4_create_trims_title_witness:
  "TrimSpace (Title (CreateTaskDTO_ToModel \<lparr>new_Title = '' x '', new_Description = None,
       new_Assignee = None, new_DueDate = None\<rparr>)) = ''x''
   \<and> (\<exists>t s'. taskService_Create sample_env
         (CreateTaskDTO_ToModel \<lparr>new_Title = '' x '', new_Description = None,
            new_Assignee = None, new_DueDate = None\<rparr>) sample_service = (Inr t, s')
        \<and> Title t = ''x''
        \<and> (\<exists>t'. taskRepo_GetByID (ID t) (repo s') = Inr t' \<and> Title t' = ''x''))
   \<and> taskService_Create sample_env
        (CreateTaskDTO_ToModel \<lparr>new_Title = ''   '', new_Description = None,
           new_Assignee = None, new_DueDate = None\<rparr>) sample_service
      = (Inl ErrInvalidInput, sample_service)"
proof -
  let ?ok = "CreateTaskDTO_ToModel \<lparr>new_Title = '' x '', new_Description = None,
       new_Assignee = None, new_DueDate = None\<rparr>"
  let ?blank = "CreateTaskDTO_ToModel \<lparr>new_Title = ''   '', new_Description = None,
       new_Assignee = None, new_DueDate = None\<rparr>"
  let ?u = "''6f1c2d3e-4b5a-4c6d-8e7f-0a1b2c3d4e5f''"
  have t1: "TrimSpace (Title ?ok) = ''x''" and t2: "TrimSpace (Title ?blank) = []"
    by (simp_all add: CreateTaskDTO_ToModel_def zero_Task_def TrimSpace_def isSpace_def)
  have i: "uuid_in (if ID ?ok = [] then new_uuid sample_env else ID ?ok) = Some ?u"
    by (simp add: CreateTaskDTO_ToModel_def zero_Task_def sample_env_def uuid_in_sample_new)
  have f: "?u \<notin> set (map r_id (db (repo sample_service)))"
    by (simp add: sample_service_def sample_row_def NewTaskService_def NewTaskRepository_def)
  from C4_create_trims_title [of ?ok sample_env sample_service ?u]
    C4_create_trims_title [of ?blank sample_env sample_service ?u] t1 t2 i f
  show ?thesis
    by auto
qed

subsection \<open>Filtered count and list\<close>

text \<open>
  Claim C8. For every table and every choice of filters, CountFiltered counts the rows
  that match the filters, with the four cases of List and an empty assignee filter as no
  filter in both; a list call that is answered from the store and cuts nothing off
  returns as many tasks as CountFiltered counts, and CountFiltered with completed = true
  and no assignee counts the completed tasks of the unfiltered list.
\<close>

theorem C8_countFiltered_matches_list:
  "taskRepo_CountFiltered completed assignee r
     = Inr (length (filter (spec_matches completed assignee) (db r)))
   \<and> taskRepo_CountFiltered completed (Some []) r = taskRepo_CountFiltered completed None r
   \<and> db_select_tasks limit offset completed (Some []) (db r)
       = db_select_tasks limit offset completed None (db r)
   \<and> (no_list_entries r \<and> 0 < limit \<and> int (length (db r)) \<le> limit \<and> offset \<le> 0 \<longrightarrow>
        (\<exists>ts. fst (taskRepo_List e limit offset completed assignee r) = Inr ts
             \<and> ts = map scan_Task (order_by_created_at_desc
                       (filter (spec_matches completed assignee) (db r)))
             \<and> taskRepo_CountFiltered completed assignee r = Inr (length ts))
      \<and> (\<exists>every. fst (taskRepo_List e limit offset None None r) = Inr every
             \<and> taskRepo_CountFiltered (Some True) None r
                 = Inr (length (filter (\<lambda>t. Completed t = True) every))))"
proof (intro conjI impI)
  show "taskRepo_CountFiltered completed assignee r
     = Inr (length (filter (spec_matches completed assignee) (db r)))"
    by (rule taskRepo_CountFiltered_spec)
  show "taskRepo_CountFiltered completed (Some []) r = taskRepo_CountFiltered completed None r"
    by (simp add: taskRepo_CountFiltered_def)
  show "db_select_tasks limit offset completed (Some []) (db r)
       = db_select_tasks limit offset completed None (db r)"
    by (simp add: db_select_tasks_def)
next
  assume a: "no_list_entries r \<and> 0 < limit \<and> int (length (db r)) \<le> limit \<and> offset \<le> 0"
  have l: "fst (taskRepo_List e limit offset c a r)
      = Inr (map scan_Task (order_by_created_at_desc (filter (spec_matches c a) (db r))))" for c a
  proof -
    have "fst (taskRepo_List e limit offset c a r)
        = Inr (map scan_Task (db_select_tasks (if limit \<le> 0 then 100 else limit)
                 (if offset < 0 then 0 else offset) c a (db r)))"
      using a by (intro taskRepo_List_no_entries) simp
    also have "db_select_tasks (if limit \<le> 0 then 100 else limit)
                 (if offset < 0 then 0 else offset) c a (db r)
        = order_by_created_at_desc (filter (spec_matches c a) (db r))"
      using a by (intro unbounded_select) simp_all
    finally show ?thesis .
  qed
  show "\<exists>ts. fst (taskRepo_List e limit offset completed assignee r) = Inr ts
             \<and> ts = map scan_Task (order_by_created_at_desc
                       (filter (spec_matches completed assignee) (db r)))
             \<and> taskRepo_CountFiltered completed assignee r = Inr (length ts)"
    by (simp add: l taskRepo_CountFiltered_spec)
  have "filter (\<lambda>t. Completed t = True) (map scan_Task (order_by_created_at_desc (db r)))
      = map scan_Task (order_by_created_at_desc (filter (\<lambda>x. r_completed x) (db r)))"
    by (simp add: filter_map o_def scan_Task_def filter_order_by_created_at_desc)
  then show "\<exists>every. fst (taskRepo_List e limit offset None None r) = Inr every
             \<and> taskRepo_CountFiltered (Some True) None r
                 = Inr (length (filter (\<lambda>t. Completed t = True) every))"
    by (simp add: l taskRepo_CountFiltered_spec spec_matches_def [abs_def])
qed

theorem C8_countFiltered_matches_list_witness:
  "no_list_entries (NewTaskRepository sample_rows)
   \<and> (0 :: int) < 100 \<and> int (length (db (NewTaskRepository sample_rows))) \<le> 100 \<and> (0 :: int) \<le> 0
   \<and> taskRepo_CountFiltered (Some True) None (NewTaskRepository sample_rows) = Inr 2
   \<and> taskRepo_CountFiltered (Some True) (Some ''amy'') (NewTaskRepository sample_rows) = Inr 1
   \<and> (\<exists>every. fst (taskRepo_List sample_env 100 0 None None (NewTaskRepository sample_rows))
                = Inr every
             \<and> length every = 3
             \<and> length (filter (\<lambda>t. Completed t = True) every) = 2)"
proof -
  let ?r = "NewTaskRepository sample_rows"
  have h: "no_list_entries ?r \<and> (0 :: int) < 100 \<and> int (length (db ?r)) \<le> 100 \<and> (0 :: int) \<le> 0"
    by (simp add: no_list_entries_def NewTaskRepository_def sample_rows_def)
  have c: "taskRepo_CountFiltered (Some True) None ?r = Inr 2"
    and c2: "taskRepo_CountFiltered (Some True) (Some ''amy'') ?r = Inr 1"
    and n: "taskRepo_CountFiltered None None ?r = Inr 3"
    by (simp_all add: taskRepo_CountFiltered_def NewTaskRepository_def sample_rows_def
        sample_row_def)
  from C8_countFiltered_matches_list [of None None ?r 100 0 sample_env] h
  obtain every where "fst (taskRepo_List sample_env 100 0 None None ?r) = Inr every"
    and "taskRepo_CountFiltered None None ?r = Inr (length every)"
    and "taskRepo_CountFiltered (Some True) None ?r
          = Inr (length (filter (\<lambda>t. Completed t = True) every))"
    by auto
  with h c c2 n show ?thesis
    by auto
qed

subsection \<open>Invalidation of the list cache\<close>

text \<open>
  Claim C2, as amended. After a successful create, update or delete during which the
  cache answers its commands (or with no cache attached), no key of the namespace
  tasks:list: is left when the operation returns, and a list call issued next, with any
  limit, offset and filters, is answered from the table as the write left it: with the
  new row, with the row rewritten, without the row.
\<close>

theorem C2_successful_write_clears_list_cache:
  assumes "redis_ok e \<or> rdb r = None"
  shows "(taskRepo_Create e (Some t) r = (Inr t', r1) \<longrightarrow>
            no_list_entries r1
          \<and> (\<exists>u. uuid_in (ID t') = Some u \<and> db r1 = db r @ [(row_of_Task t')\<lparr>r_id := u\<rparr>])
          \<and> fst (taskRepo_List e' limit offset completed assignee r1)
              = Inr (map scan_Task (db_select_tasks (if limit \<le> 0 then 100 else limit)
                       (if offset < 0 then 0 else offset) completed assignee (db r1))))
       \<and> (taskRepo_Update e (Some t) r = (None, r2) \<longrightarrow>
            no_list_entries r2
          \<and> (\<exists>ra. 0 < ra
                \<and> db_update_task (db_now e) (t\<lparr>UpdatedAt := now e\<rparr>) (db r) = Inr (ra, db r2))
          \<and> fst (taskRepo_List e' limit offset completed assignee r2)
              = Inr (map scan_Task (db_select_tasks (if limit \<le> 0 then 100 else limit)
                       (if offset < 0 then 0 else offset) completed assignee (db r2))))
       \<and> (taskRepo_Delete e i r = (Inr True, r3) \<longrightarrow>
            no_list_entries r3
          \<and> (\<exists>u. uuid_in i = Some u \<and> db r3 = filter (\<lambda>x. r_id x \<noteq> u) (db r))
          \<and> fst (taskRepo_List e' limit offset completed assignee r3)
              = Inr (map scan_Task (db_select_tasks (if limit \<le> 0 then 100 else limit)
                       (if offset < 0 then 0 else offset) completed assignee (db r3))))"
proof (intro conjI impI)
  have clears: "no_list_entries (invalidateListCache (redis_ok e) (r\<lparr>db := rows\<rparr>))" for rows
    using assms by (intro invalidateListCache_clears) auto
  {
    assume "taskRepo_Create e (Some t) r = (Inr t', r1)"
    then obtain u where u: "uuid_in (ID t') = Some u"
      and r1: "r1 = invalidateListCache (redis_ok e) (r\<lparr>db := db r @ [(row_of_Task t')\<lparr>r_id := u\<rparr>]\<rparr>)"
      by (auto simp: taskRepo_Create_def db_insert_task_def Let_def row_of_Task_def
          split: option.splits if_splits)
    show "no_list_entries r1"
      unfolding r1 by (rule clears)
    then show "fst (taskRepo_List e' limit offset completed assignee r1)
              = Inr (map scan_Task (db_select_tasks (if limit \<le> 0 then 100 else limit)
                       (if offset < 0 then 0 else offset) completed assignee (db r1)))"
      by (rule taskRepo_List_no_entries)
    show "\<exists>u. uuid_in (ID t') = Some u \<and> db r1 = db r @ [(row_of_Task t')\<lparr>r_id := u\<rparr>]"
      using u by (simp add: r1)
  }
  {
    assume "taskRepo_Update e (Some t) r = (None, r2)"
    then obtain ra rows where
      upd: "db_update_task (db_now e) (t\<lparr>UpdatedAt := now e\<rparr>) (db r) = Inr (ra, rows)"
      and ra: "0 < ra"
      and r2: "r2 = invalidateListCache (redis_ok e) (r\<lparr>db := rows\<rparr>)"
      by (auto simp: taskRepo_Update_def Let_def split: sum.splits prod.splits if_splits)
    show "no_list_entries r2"
      unfolding r2 by (rule clears)
    then show "fst (taskRepo_List e' limit offset completed assignee r2)
              = Inr (map scan_Task (db_select_tasks (if limit \<le> 0 then 100 else limit)
                       (if offset < 0 then 0 else offset) completed assignee (db r2)))"
      by (rule taskRepo_List_no_entries)
    show "\<exists>ra. 0 < ra
        \<and> db_update_task (db_now e) (t\<lparr>UpdatedAt := now e\<rparr>) (db r) = Inr (ra, db r2)"
      using upd ra by (simp add: r2)
  }
  {
    assume "taskRepo_Delete e i r = (Inr True, r3)"
    then obtain u where u: "uuid_in i = Some u"
      and r3: "r3 = invalidateListCache (redis_ok e) (r\<lparr>db := filter (\<lambda>x. r_id x \<noteq> u) (db r)\<rparr>)"
      by (auto simp: taskRepo_Delete_def db_delete_task_def Let_def split: option.splits if_splits)
    show "no_list_entries r3"
      unfolding r3 by (rule clears)
    then show "fst (taskRepo_List e' limit offset completed assignee r3)
              = Inr (map scan_Task (db_select_tasks (if limit \<le> 0 then 100 else limit)
                       (if offset < 0 then 0 else offset) completed assignee (db r3)))"
      by (rule taskRepo_List_no_entries)
    show "\<exists>u. uuid_in i = Some u \<and> db r3 = filter (\<lambda>x. r_id x \<noteq> u) (db r)"
      using u by (simp add: r3)
  }
qed

theorem C2_successful_write_clears_list_cache_witness:
  "(redis_ok sample_env \<or> rdb sample_cached_repo = None)
   \<and> \<not> no_list_entries sample_cached_repo
   \<and> (\<exists>t r1. taskRepo_Create sample_env (Some (zero_Task\<lparr>Title := ''x''\<rparr>)) sample_cached_repo
                = (Inr t, r1)
            \<and> no_list_entries r1
            \<and> fst (taskRepo_List (sample_env\<lparr>json_Unmarshal := sample_Unmarshal\<rparr>)
                     100 0 None None r1)
                = Inr [zero_Task\<lparr>ID := ''6f1c2d3e-4b5a-4c6d-8e7f-0a1b2c3d4e5f'', Title := ''x'',
                         CreatedAt := 5, UpdatedAt := 5\<rparr>])"
proof -
  have h: "redis_ok sample_env \<or> rdb sample_cached_repo = None"
    by (simp add: sample_env_def)
  have stale: "\<not> no_list_entries sample_cached_repo"
    using prefix_cacheKeyForList [of 100 0 None None]
    by (simp add: no_list_entries_def sample_cached_repo_def SetCacheClient_def
        NewTaskRepository_def)
  define t where "t = zero_Task\<lparr>ID := ''6f1c2d3e-4b5a-4c6d-8e7f-0a1b2c3d4e5f'', Title := ''x'',
      CreatedAt := 5, UpdatedAt := 5\<rparr>"
  define r1 where "r1 = invalidateListCache True (sample_cached_repo\<lparr>db := [row_of_Task t]\<rparr>)"
  have c: "taskRepo_Create sample_env (Some (zero_Task\<lparr>Title := ''x''\<rparr>)) sample_cached_repo
      = (Inr t, r1)"
    by (simp add: taskRepo_Create_def db_insert_task_def Let_def sample_env_def t_def r1_def
        row_of_Task_def uuid_in_sample_new
        sample_cached_repo_def SetCacheClient_def NewTaskRepository_def zero_Task_def)
  have d: "db r1 = [row_of_Task t]"
    by (simp add: r1_def)
  have s: "map scan_Task (db_select_tasks 100 0 None None [row_of_Task t]) = [t]"
    by (simp add: db_select_tasks_def limit_offset_def order_by_created_at_desc_def
        scan_Task_def row_of_Task_def t_def zero_Task_def zero_NullString_def zero_NullTime_def
        NullString_Scan_def NullString_Value_def NullTime_Scan_def NullTime_Value_def)
  from C2_successful_write_clears_list_cache [OF h,
      of "zero_Task\<lparr>Title := ''x''\<rparr>" t r1 "sample_env\<lparr>json_Unmarshal := sample_Unmarshal\<rparr>"
         100 0 None None] c d s
  have "no_list_entries r1
      \<and> fst (taskRepo_List (sample_env\<lparr>json_Unmarshal := sample_Unmarshal\<rparr>) 100 0 None None r1)
          = Inr [t]"
    by simp
  with h stale c show ?thesis
    unfolding t_def by blast
qed

text \<open>
  The claim as stated fails when the cache does not answer during the write: the create
  succeeds, the cached page stays, and the next list call returns it, the empty page,
  although the table now holds the new task.
\<close>

theorem C2_unreachable_cache_keeps_entries:
  "\<exists>t r1. taskRepo_Create (sample_env\<lparr>redis_ok := False\<rparr>) (Some (zero_Task\<lparr>Title := ''x''\<rparr>))
             sample_cached_repo = (Inr t, r1)
         \<and> \<not> no_list_entries r1
         \<and> db r1 = [row_of_Task t]
         \<and> fst (taskRepo_List (sample_env\<lparr>json_Unmarshal := sample_Unmarshal\<rparr>) 100 0 None None r1)
             = Inr []"
proof -
  define t where "t = zero_Task\<lparr>ID := ''6f1c2d3e-4b5a-4c6d-8e7f-0a1b2c3d4e5f'', Title := ''x'',
      CreatedAt := 5, UpdatedAt := 5\<rparr>"
  define r1 where "r1 = sample_cached_repo\<lparr>db := [row_of_Task t]\<rparr>"
  have c: "taskRepo_Create (sample_env\<lparr>redis_ok := False\<rparr>) (Some (zero_Task\<lparr>Title := ''x''\<rparr>))
             sample_cached_repo = (Inr t, r1)"
    by (simp add: taskRepo_Create_def db_insert_task_def Let_def sample_env_def t_def r1_def
        row_of_Task_def uuid_in_sample_new
        invalidateListCache_unreachable sample_cached_repo_def SetCacheClient_def
        NewTaskRepository_def zero_Task_def)
  have stale: "\<not> no_list_entries r1"
    using prefix_cacheKeyForList [of 100 0 None None]
    by (simp add: no_list_entries_def r1_def sample_cached_repo_def SetCacheClient_def
        NewTaskRepository_def)
  have l: "fst (taskRepo_List (sample_env\<lparr>json_Unmarshal := sample_Unmarshal\<rparr>) 100 0 None None r1)
             = Inr []"
    by (simp add: taskRepo_List_def Let_def redis_Get_def r1_def sample_cached_repo_def
        SetCacheClient_def NewTaskRepository_def sample_env_def sample_Unmarshal_def)
  have "db r1 = [row_of_Task t]"
    by (simp add: r1_def)
  with c stale l show ?thesis
    by blast
qed

subsection \<open>Timestamps\<close>

text \<open>
  Claim C9, as amended. With clocks that do not run backwards, every stored task of every
  state the public operations reach has updated_at at or after created_at. Both
  timestamps come from the server: create overwrites whatever timestamps the task it is
  handed carries with the application's now, in the returned task and in the stored
  row; update ignores them, keeps created_at and sets updated_at to the database's now.
\<close>

theorem C9_timestamps_server_assigned:
  "(reachable clk s \<longrightarrow> list_all (\<lambda>x. r_created_at x \<le> r_updated_at x) (db (repo s)))
   \<and> taskService_Create e (task\<lparr>CreatedAt := a, UpdatedAt := b\<rparr>) st = taskService_Create e task st
   \<and> (taskService_Create e task st = (Inr t, st') \<longrightarrow>
        CreatedAt t = now e \<and> UpdatedAt t = now e
      \<and> (\<exists>v x. uuid_in (ID t) = Some v \<and> find (\<lambda>x. r_id x = v) (db (repo st')) = Some x
             \<and> r_created_at x = now e \<and> r_updated_at x = now e))
   \<and> taskService_Update e (task\<lparr>CreatedAt := a, UpdatedAt := b\<rparr>) st = taskService_Update e task st
   \<and> (taskRepo_GetByID (ID task) (repo st) = Inr before
        \<and> taskService_Update e task st = (Inr u, st') \<longrightarrow>
        CreatedAt u = CreatedAt before \<and> UpdatedAt u = db_now e
      \<and> taskRepo_GetByID (ID task) (repo st') = Inr u)"
proof (intro conjI impI)
  assume "reachable clk s"
  then show "list_all (\<lambda>x. r_created_at x \<le> r_updated_at x) (db (repo s))"
    using reachable_timestamps [of clk s] by (simp add: list_all_iff)
next
  show "taskService_Create e (task\<lparr>CreatedAt := a, UpdatedAt := b\<rparr>) st = taskService_Create e task st"
    by (cases task)
      (simp add: taskService_Create_def taskRepo_Create_def Let_def cong: sum.case_cong)
next
  assume c: "taskService_Create e task st = (Inr t, st')"
  let ?i = "if ID task = [] then new_uuid e else ID task"
  let ?t = "task\<lparr>ID := ?i, Title := TrimSpace (Title task), CreatedAt := now e, UpdatedAt := now e\<rparr>"
  have nb: "TrimSpace (Title task) \<noteq> []"
    using c taskService_Create_blank [of task e st] by auto
  obtain v where v: "uuid_in ?i = Some v"
    using c nb taskService_Create_syntax [of task e st] by (cases "uuid_in ?i") auto
  have fresh: "v \<notin> set (map r_id (db (repo st)))"
    using c nb v taskService_Create_duplicate [of task e v st] by auto
  let ?x = "(row_of_Task ?t)\<lparr>r_id := v\<rparr>"
  from taskService_Create_fresh [OF nb v fresh] c
  have t: "t = ?t"
    and st': "st' = st\<lparr>repo := invalidateListCache (redis_ok e)
                   ((repo st)\<lparr>db := db (repo st) @ [?x]\<rparr>),
                 TasksCount := TasksCount st + 1\<rparr>"
    by simp_all
  show "CreatedAt t = now e" and "UpdatedAt t = now e"
    by (simp_all add: t)
  have "r_id ?x \<notin> set (map r_id (db (repo st)))"
    using fresh by simp
  then have "find (\<lambda>y. r_id y = r_id ?x) (db (repo st) @ [?x]) = Some ?x"
    by (rule find_append_fresh)
  then have "find (\<lambda>x. r_id x = v) (db (repo st')) = Some ?x"
    by (simp add: st')
  moreover have "uuid_in (ID t) = Some v"
    using v by (simp add: t)
  moreover have "r_created_at ?x = now e" and "r_updated_at ?x = now e"
    by (simp_all add: row_of_Task_def)
  ultimately show "\<exists>v x. uuid_in (ID t) = Some v \<and> find (\<lambda>x. r_id x = v) (db (repo st')) = Some x
             \<and> r_created_at x = now e \<and> r_updated_at x = now e"
    by blast
next
  show "taskService_Update e (task\<lparr>CreatedAt := a, UpdatedAt := b\<rparr>) st = taskService_Update e task st"
    by (simp add: taskService_Update_def Let_def cong: sum.case_cong if_cong prod.case_cong option.case_cong)
next
  assume a: "taskRepo_GetByID (ID task) (repo st) = Inr before
        \<and> taskService_Update e task st = (Inr u, st')"
  then obtain v x where v: "uuid_in (ID task) = Some v"
    and x: "find (\<lambda>x. r_id x = v) (db (repo st)) = Some x"
    and before: "before = scan_Task x"
    by (auto simp: taskRepo_GetByID_Inr)
  have title: "\<not> (Title task \<noteq> [] \<and> TrimSpace (Title task) = [])"
    using a v x taskService_Update_blank_title [of task v st x e] by auto
  from v x title obtain s1 where
    upd: "taskService_Update e task st =
          (Inr (scan_Task (x\<lparr>r_title := (if Title task \<noteq> [] then TrimSpace (Title task) else r_title x),
                             r_updated_at := db_now e\<rparr>)), s1)"
    and f: "find (\<lambda>x. r_id x = v) (db (repo s1)) =
          Some (x\<lparr>r_title := (if Title task \<noteq> [] then TrimSpace (Title task) else r_title x),
                 r_updated_at := db_now e\<rparr>)"
    by (rule taskService_Update_found [where e = e])
  from upd a have u: "u = scan_Task (x\<lparr>r_title := (if Title task \<noteq> [] then TrimSpace (Title task) else r_title x),
                             r_updated_at := db_now e\<rparr>)" and s1: "s1 = st'"
    by simp_all
  show "CreatedAt u = CreatedAt before" and "UpdatedAt u = db_now e"
    by (simp_all add: u before scan_Task_def)
  show "taskRepo_GetByID (ID task) (repo st') = Inr u"
    using taskRepo_GetByID_found [OF v f] by (simp add: u s1)
qed

theorem C9_timestamps_server_assigned_witness:
  "reachable (max (now sample_env) (db_now sample_env))
     (snd (taskService_Create sample_env (zero_Task\<lparr>Title := ''x'', CreatedAt := 99\<rparr>)
            (NewTaskService (NewTaskRepository []))))
   \<and> db (repo (snd (taskService_Create sample_env (zero_Task\<lparr>Title := ''x'', CreatedAt := 99\<rparr>)
            (NewTaskService (NewTaskRepository []))))) \<noteq> []
   \<and> list_all (\<lambda>x. r_created_at x \<le> r_updated_at x)
       (db (repo (snd (taskService_Create sample_env (zero_Task\<lparr>Title := ''x'', CreatedAt := 99\<rparr>)
            (NewTaskService (NewTaskRepository []))))))"
proof -
  let ?s = "snd (taskService_Create sample_env (zero_Task\<lparr>Title := ''x'', CreatedAt := 99\<rparr>)
            (NewTaskService (NewTaskRepository [])))"
  have "(0 :: int) \<le> now sample_env" and "(0 :: int) \<le> db_now sample_env"
    by (simp_all add: sample_env_def)
  then have r: "reachable (max (now sample_env) (db_now sample_env)) ?s"
    by (intro reachable.create reachable.start)
  have n: "db (repo ?s) \<noteq> []"
    by (simp add: taskService_Create_def taskRepo_Create_def db_insert_task_def Let_def
        NewTaskService_def NewTaskRepository_def zero_Task_def TrimSpace_def isSpace_def
        row_of_Task_def uuid_in_sample_new sample_env_def)
  from C9_timestamps_server_assigned [of "max (now sample_env) (db_now sample_env)" ?s] r n
  show ?thesis
    by blast
qed

text \<open>
  The claim as stated fails when the database's clock is behind the application's: a
  task created at application time 10 and updated when the trigger reads 9 is stored
  and returned with updated_at before created_at.
\<close>

theorem C9_database_clock_behind:
  "\<exists>t s1 u s2.
      taskService_Create (sample_env\<lparr>now := 10\<rparr>) (zero_Task\<lparr>Title := ''x''\<rparr>)
        (NewTaskService (NewTaskRepository [])) = (Inr t, s1)
    \<and> taskService_Update (sample_env\<lparr>db_now := 9\<rparr>)
        (UpdateTaskDTO_ToModel \<lparr>upd_Title = Some ''y'', upd_Description = None,
           upd_Assignee = None, upd_Completed = None, upd_DueDate = None\<rparr> (ID t)) s1
        = (Inr u, s2)
    \<and> taskRepo_GetByID (ID t) (repo s2) = Inr u
    \<and> CreatedAt u = 10 \<and> UpdatedAt u = 9"
  by (simp add: taskService_Create_def taskRepo_Create_def db_insert_task_def Let_def
      taskService_Update_def taskRepo_GetByID_def db_get_task_def taskRepo_Update_def
      db_update_task_def uuid_in_sample_new
      trg_set_updated_at_def invalidateListCache_def UpdateTaskDTO_ToModel_def
      NewTaskService_def NewTaskRepository_def zero_Task_def zero_NullString_def
      zero_NullTime_def TrimSpace_def isSpace_def sample_env_def scan_Task_def row_of_Task_def
      NullString_Scan_def NullString_Value_def NullTime_Scan_def NullTime_Value_def)

end
